theory Spec2Isabelle
  imports Main "HOL-Library.Sublist"
begin

section \<open>mcp-twikit: session acquisition and the tool dispatch layer\<close>

text \<open>
  A shallow embedding of \<^verbatim>\<open>src/mcp_twikit/twitter.py\<close>. The module is a set of
  coroutines that obtain a twikit client, call one or two of its methods and turn the
  result into text. Everything outside the module (the twikit client, the file system,
  the logger, the process environment) is made explicit:
  \<^item> the process environment, the file system, the log and the record of client calls
    are the fields of a \<open>world\<close> that every coroutine takes and returns;
  \<^item> a Python exception is the \<open>Inl\<close> branch of the result;
  \<^item> the answers of the remote service are a parameter, a \<open>twikit_api\<close>, which
    gives for every client method and arguments either an exception or a value.
\<close>

subsection \<open>Python values\<close>

text \<open>An instance of \<^verbatim>\<open>Exception\<close>; the string is what \<^verbatim>\<open>f"{e}"\<close> prints.\<close>

datatype exn = Exception string

fun str_exn :: "exn \<Rightarrow> string" where
  "str_exn (Exception m) = m"

abbreviation NL :: string where
  "NL \<equiv> [CHR 0x0A]"

text \<open>\<^verbatim>\<open>s.lstrip(chars)\<close>: drop leading characters while they are among \<open>chars\<close>.\<close>

definition lstrip :: "string \<Rightarrow> string \<Rightarrow> string" where
  "lstrip chars s = dropWhile (\<lambda>c. c \<in> set chars) s"

text \<open>\<^verbatim>\<open>sep.join(xs)\<close>.\<close>

fun join :: "string \<Rightarrow> string list \<Rightarrow> string" where
  "join sep [] = []"
| "join sep [x] = x"
| "join sep (x # y # ys) = x @ sep @ join sep (y # ys)"

text \<open>\<^verbatim>\<open>str\<close> of an integer and of a boolean, as an f-string renders them.\<close>

fun str_nat :: "nat \<Rightarrow> string" where
  "str_nat n = (if n < 10 then [char_of (48 + n)]
                else str_nat (n div 10) @ [char_of (48 + n mod 10)])"

definition str_int :: "int \<Rightarrow> string" where
  "str_int i = (if i < 0 then ''-'' @ str_nat (nat (- i)) else str_nat (nat i))"

definition str_bool :: "bool \<Rightarrow> string" where
  "str_bool b = (if b then ''True'' else ''False'')"

subsection \<open>The objects of twikit that the module reads\<close>

record user =
  u_id :: string
  u_name :: string
  u_screen_name :: string
  u_description :: string
  u_verified :: bool
  u_followers_count :: int
  u_following_count :: int
  u_location :: string
  u_created_at :: string
  u_profile_image_url :: string
  u_profile_banner_url :: string

record tweet =
  t_id :: string
  t_user :: user
  t_created_at :: string
  t_text :: string

record message =
  m_id :: string

record trend =
  tr_name :: string
  tr_tweets_count :: int

type_synonym cookies = "(string \<times> string) list"

text \<open>\<^verbatim>\<open>twikit.Client(language, user_agent=...)\<close> with its cookie jar.\<close>

record client =
  language :: string
  user_agent :: "string option"
  cookie_jar :: cookies

subsection \<open>The world\<close>

text \<open>A path is the list of its components below the root.\<close>

type_synonym path = "string list"

text \<open>Every method called on a client is recorded, in order, with its arguments.\<close>

datatype call =
    Login "string option" "string option" "string option"
  | LoadCookies path
  | SaveCookies path
  | SearchTweet string string int
  | GetUserByScreenName string
  | GetUserTweets string string int
  | GetTimeline int
  | GetLatestTimeline int
  | CreateTweet string "string list option" "string option" "string option"
  | FavoriteTweet string
  | Retweet string
  | FollowUser string
  | UnfollowUser string
  | BlockUser string
  | UnblockUser string
  | GetUserFollowers string int
  | GetUserFollowing string int
  | SendDm string string "string option"
  | GetTrends string int

record world =
  environ :: "string \<rightharpoonup> string"
  fs_dirs :: "path set"
  fs_files :: "path \<rightharpoonup> cookies"
  logged :: "string list"
  calls :: "call list"

text \<open>
  The outcome of each network method of the client, as a function of the client and the
  arguments of the call. \<open>api_create_tweet\<close> takes \<open>text\<close>, \<open>media_ids\<close>,
  \<open>poll_uri\<close> and \<open>reply_to\<close>; \<open>api_get_user_by_screen_name\<close> may return
  \<^verbatim>\<open>None\<close>.
\<close>

record twikit_api =
  api_login :: "client \<Rightarrow> string option \<Rightarrow> string option \<Rightarrow> string option \<Rightarrow> exn + cookies"
  api_search_tweet :: "client \<Rightarrow> string \<Rightarrow> string \<Rightarrow> int \<Rightarrow> exn + tweet list"
  api_get_user_by_screen_name :: "client \<Rightarrow> string \<Rightarrow> exn + user option"
  api_get_user_tweets :: "client \<Rightarrow> string \<Rightarrow> string \<Rightarrow> int \<Rightarrow> exn + tweet list"
  api_get_timeline :: "client \<Rightarrow> int \<Rightarrow> exn + tweet list"
  api_get_latest_timeline :: "client \<Rightarrow> int \<Rightarrow> exn + tweet list"
  api_create_tweet :: "client \<Rightarrow> string \<Rightarrow> string list option \<Rightarrow> string option
                        \<Rightarrow> string option \<Rightarrow> exn + tweet"
  api_favorite_tweet :: "client \<Rightarrow> string \<Rightarrow> exn + unit"
  api_retweet :: "client \<Rightarrow> string \<Rightarrow> exn + unit"
  api_follow_user :: "client \<Rightarrow> string \<Rightarrow> exn + unit"
  api_unfollow_user :: "client \<Rightarrow> string \<Rightarrow> exn + unit"
  api_block_user :: "client \<Rightarrow> string \<Rightarrow> exn + unit"
  api_unblock_user :: "client \<Rightarrow> string \<Rightarrow> exn + unit"
  api_get_user_followers :: "client \<Rightarrow> string \<Rightarrow> int \<Rightarrow> exn + user list"
  api_get_user_following :: "client \<Rightarrow> string \<Rightarrow> int \<Rightarrow> exn + user list"
  api_send_dm :: "client \<Rightarrow> string \<Rightarrow> string \<Rightarrow> string option \<Rightarrow> exn + message"
  api_get_trends :: "client \<Rightarrow> string \<Rightarrow> int \<Rightarrow> exn + trend list"

subsection \<open>Statements that may raise\<close>

type_synonym 'a io = "world \<Rightarrow> (exn + 'a) \<times> world"

definition return_io :: "'a \<Rightarrow> 'a io" where
  "return_io x w = (Inr x, w)"

definition raise_io :: "exn \<Rightarrow> 'a io" where
  "raise_io e w = (Inl e, w)"

text \<open>Sequencing: an exception of the first statement skips the rest.\<close>

definition bind_io :: "'a io \<Rightarrow> ('a \<Rightarrow> 'b io) \<Rightarrow> 'b io" where
  "bind_io m f w = (case m w of (Inl e, w') \<Rightarrow> (Inl e, w') | (Inr x, w') \<Rightarrow> f x w')"

text \<open>\<^verbatim>\<open>try: m  except Exception as e: h e\<close>.\<close>

definition try_except :: "'a io \<Rightarrow> (exn \<Rightarrow> 'a io) \<Rightarrow> 'a io" where
  "try_except m h w = (case m w of (Inl e, w') \<Rightarrow> h e w' | (Inr x, w') \<Rightarrow> (Inr x, w'))"

text \<open>
  A \<^verbatim>\<open>try\<close> block whose handler reads a local variable that the block rebinds after
  its first statement: \<open>h1\<close> is the handler with the bindings before the rebinding,
  \<open>h2\<close> the handler with those after it.
\<close>

definition try_except_rebind ::
  "'a io \<Rightarrow> (exn \<Rightarrow> 'b io) \<Rightarrow> ('a \<Rightarrow> 'b io) \<Rightarrow> (exn \<Rightarrow> 'b io) \<Rightarrow> 'b io" where
  "try_except_rebind m h1 f h2 w =
     (case m w of (Inl e, w') \<Rightarrow> h1 e w' | (Inr x, w') \<Rightarrow> try_except (f x) h2 w')"

text \<open>\<^verbatim>\<open>logger.error(s)\<close>.\<close>

definition logger_error :: "string \<Rightarrow> unit io" where
  "logger_error s w = (Inr (), w\<lparr>logged := logged w @ [s]\<rparr>)"

text \<open>\<^verbatim>\<open>logger.error(s); return s\<close>, the body of every handler of a tool.\<close>

definition log_and_return :: "string \<Rightarrow> string io" where
  "log_and_return s = bind_io (logger_error s) (\<lambda>_. return_io s)"

text \<open>A network method of the client: the call is recorded, the service answers.\<close>

definition call_api :: "call \<Rightarrow> exn + 'a \<Rightarrow> 'a io" where
  "call_api c r w = (r, w\<lparr>calls := calls w @ [c]\<rparr>)"

subsection \<open>The file system, as pathlib and the client use it\<close>

text \<open>
  Directories are a set of paths, regular files a map from paths to what they hold.
  Permissions and device errors are not modelled.
\<close>

definition path_exists :: "path \<Rightarrow> bool io" where
  "path_exists p w = (Inr (p \<in> fs_dirs w \<or> fs_files w p \<noteq> None), w)"

definition parent :: "path \<Rightarrow> path" where
  "parent p = butlast p"

text \<open>
  \<^verbatim>\<open>p.mkdir(parents=True, exist_ok=True)\<close> creates \<open>p\<close> and its missing
  ancestors and accepts directories that exist. It raises, and creates nothing, when
  \<open>p\<close> or one of its ancestors is a regular file (\<^verbatim>\<open>FileExistsError\<close> or
  \<^verbatim>\<open>NotADirectoryError\<close>).
\<close>

definition mkdir_parents :: "path \<Rightarrow> unit io" where
  "mkdir_parents p w =
     (if list_ex (\<lambda>q. fs_files w q \<noteq> None) (prefixes p)
      then (Inl (Exception ''[Errno 17] File exists''), w)
      else (Inr (), w\<lparr>fs_dirs := fs_dirs w \<union> set (prefixes p)\<rparr>))"

text \<open>\<^verbatim>\<open>client.load_cookies(p)\<close> opens the file for reading.\<close>

definition load_cookies :: "client \<Rightarrow> path \<Rightarrow> client io" where
  "load_cookies c p w =
     (case fs_files w p of
        None \<Rightarrow> (Inl (Exception ''cannot open cookies file''), w\<lparr>calls := calls w @ [LoadCookies p]\<rparr>)
      | Some ck \<Rightarrow> (Inr (c\<lparr>cookie_jar := ck\<rparr>), w\<lparr>calls := calls w @ [LoadCookies p]\<rparr>))"

text \<open>
  \<^verbatim>\<open>client.save_cookies(p)\<close> opens the file for writing, which needs the directory
  of \<open>p\<close> and fails on a directory.
\<close>

definition save_cookies :: "client \<Rightarrow> path \<Rightarrow> unit io" where
  "save_cookies c p w =
     (if parent p \<in> fs_dirs w \<and> p \<notin> fs_dirs w
      then (Inr (), w\<lparr>fs_files := (fs_files w)(p \<mapsto> cookie_jar c),
                       calls := calls w @ [SaveCookies p]\<rparr>)
      else (Inl (Exception ''cannot write cookies file''),
            w\<lparr>calls := calls w @ [SaveCookies p]\<rparr>))"

text \<open>\<^verbatim>\<open>await client.login(auth_info_1=.., auth_info_2=.., password=..)\<close>.\<close>

definition login :: "twikit_api \<Rightarrow> client \<Rightarrow> string option \<Rightarrow> string option \<Rightarrow> string option
                     \<Rightarrow> client io" where
  "login api c a1 a2 pw =
     bind_io (call_api (Login a1 a2 pw) (api_login api c a1 a2 pw))
       (\<lambda>ck. return_io (c\<lparr>cookie_jar := ck\<rparr>))"

subsection \<open>Module constants (lines 13 to 17)\<close>

record module_globals =
  USERNAME :: "string option"
  EMAIL :: "string option"
  PASSWORD :: "string option"
  USER_AGENT :: "string option"
  COOKIES_PATH :: path

text \<open>
  The assignments at the top of the module, run once when the module is imported:
  \<open>env\<close> is \<^verbatim>\<open>os.environ\<close> at that moment and \<open>home\<close> is \<^verbatim>\<open>Path.home()\<close>.
\<close>

definition module_init :: "path \<Rightarrow> (string \<rightharpoonup> string) \<Rightarrow> module_globals" where
  "module_init home env =
     \<lparr>USERNAME = env ''TWITTER_USERNAME'',
      EMAIL = env ''TWITTER_EMAIL'',
      PASSWORD = env ''TWITTER_PASSWORD'',
      USER_AGENT = env ''USER_AGENT'',
      COOKIES_PATH = home @ [''.mcp-twikit'', ''cookies.json'']\<rparr>"

subsection \<open>get_twitter_client\<close>

text \<open>\<^verbatim>\<open>twikit.Client(language, user_agent=ua)\<close>: a client with an empty cookie jar.\<close>

definition twikit_Client :: "string \<Rightarrow> string option \<Rightarrow> client" where
  "twikit_Client lang ua = \<lparr>language = lang, user_agent = ua, cookie_jar = []\<rparr>"

definition get_twitter_client :: "twikit_api \<Rightarrow> module_globals \<Rightarrow> client io" where
  "get_twitter_client api g =
     (let client = twikit_Client ''en-US'' (USER_AGENT g) in
      bind_io (path_exists (COOKIES_PATH g)) (\<lambda>ex.
        if ex then load_cookies client (COOKIES_PATH g)
        else
          bind_io
            (try_except (login api client (USERNAME g) (EMAIL g) (PASSWORD g))
               (\<lambda>e. bind_io (logger_error (''Failed to login: '' @ str_exn e))
                       (\<lambda>_. raise_io e)))
            (\<lambda>client.
               bind_io (mkdir_parents (parent (COOKIES_PATH g))) (\<lambda>_.
               bind_io (save_cookies client (COOKIES_PATH g)) (\<lambda>_.
               return_io client)))))"


subsection \<open>convert_tweets_to_markdown\<close>

text \<open>The f-string of line 118.\<close>

definition tweet_text :: "tweet \<Rightarrow> string" where
  "tweet_text tw =
     ''**@'' @ u_screen_name (t_user tw) @ ''** - '' @ t_created_at tw @ NL @ t_text tw"

text \<open>The \<^verbatim>\<open>for\<close> loop of lines 117 to 119, appending to \<open>markdown_tweets\<close>.\<close>

fun markdown_loop :: "tweet list \<Rightarrow> string list \<Rightarrow> string list" where
  "markdown_loop [] markdown_tweets = markdown_tweets"
| "markdown_loop (tw # tweets) markdown_tweets =
     markdown_loop tweets (markdown_tweets @ [tweet_text tw])"

definition convert_tweets_to_markdown :: "tweet list \<Rightarrow> string" where
  "convert_tweets_to_markdown tweets = join (NL @ NL) (markdown_loop tweets [])"

subsection \<open>The tools\<close>

text \<open>
  Each tool is \<^verbatim>\<open>try: ... except Exception as e: ...\<close>. The \<^verbatim>\<open>try\<close> block of a
  tool \<open>f\<close> is \<open>f_try\<close>; the tool is the block under its handler.
\<close>

definition search_twitter_try ::
  "twikit_api \<Rightarrow> module_globals \<Rightarrow> string \<Rightarrow> string \<Rightarrow> int \<Rightarrow> string io" where
  "search_twitter_try api g query sort_by count =
     bind_io (get_twitter_client api g) (\<lambda>client.
     bind_io (call_api (SearchTweet query sort_by count)
                (api_search_tweet api client query sort_by count)) (\<lambda>tweets.
     return_io (convert_tweets_to_markdown tweets)))"

definition search_twitter ::
  "twikit_api \<Rightarrow> module_globals \<Rightarrow> string \<Rightarrow> string \<Rightarrow> int \<Rightarrow> string io" where
  "search_twitter api g query sort_by count =
     try_except (search_twitter_try api g query sort_by count)
       (\<lambda>e. log_and_return (''Failed to search tweets: '' @ str_exn e))"

definition get_user_tweets_try ::
  "twikit_api \<Rightarrow> module_globals \<Rightarrow> string \<Rightarrow> string \<Rightarrow> int \<Rightarrow> string io" where
  "get_user_tweets_try api g username tweet_type count =
     bind_io (get_twitter_client api g) (\<lambda>client.
       let username = lstrip ''@'' username in
       bind_io (call_api (GetUserByScreenName username)
                  (api_get_user_by_screen_name api client username)) (\<lambda>user.
         case user of
           None \<Rightarrow> return_io (''Could not find user '' @ username)
         | Some user \<Rightarrow>
             bind_io (call_api (GetUserTweets (u_id user) tweet_type count)
                        (api_get_user_tweets api client (u_id user) tweet_type count)) (\<lambda>tweets.
             return_io (convert_tweets_to_markdown tweets))))"

definition get_user_tweets ::
  "twikit_api \<Rightarrow> module_globals \<Rightarrow> string \<Rightarrow> string \<Rightarrow> int \<Rightarrow> string io" where
  "get_user_tweets api g username tweet_type count =
     try_except (get_user_tweets_try api g username tweet_type count)
       (\<lambda>e. log_and_return (''Failed to get user tweets: '' @ str_exn e))"

definition get_timeline_try :: "twikit_api \<Rightarrow> module_globals \<Rightarrow> int \<Rightarrow> string io" where
  "get_timeline_try api g count =
     bind_io (get_twitter_client api g) (\<lambda>client.
     bind_io (call_api (GetTimeline count) (api_get_timeline api client count)) (\<lambda>tweets.
     return_io (convert_tweets_to_markdown tweets)))"

definition get_timeline :: "twikit_api \<Rightarrow> module_globals \<Rightarrow> int \<Rightarrow> string io" where
  "get_timeline api g count =
     try_except (get_timeline_try api g count)
       (\<lambda>e. log_and_return (''Failed to get timeline: '' @ str_exn e))"

definition get_latest_timeline_try :: "twikit_api \<Rightarrow> module_globals \<Rightarrow> int \<Rightarrow> string io" where
  "get_latest_timeline_try api g count =
     bind_io (get_twitter_client api g) (\<lambda>client.
     bind_io (call_api (GetLatestTimeline count) (api_get_latest_timeline api client count)) (\<lambda>tweets.
     return_io (convert_tweets_to_markdown tweets)))"

definition get_latest_timeline :: "twikit_api \<Rightarrow> module_globals \<Rightarrow> int \<Rightarrow> string io" where
  "get_latest_timeline api g count =
     try_except (get_latest_timeline_try api g count)
       (\<lambda>e. log_and_return (''Failed to get latest timeline: '' @ str_exn e))"

definition create_tweet_try ::
  "twikit_api \<Rightarrow> module_globals \<Rightarrow> string \<Rightarrow> string list option \<Rightarrow> string option
   \<Rightarrow> string io" where
  "create_tweet_try api g text media_ids poll_uri =
     bind_io (get_twitter_client api g) (\<lambda>client.
     bind_io (call_api (CreateTweet text media_ids poll_uri None)
                (api_create_tweet api client text media_ids poll_uri None)) (\<lambda>tweet.
     return_io (''Tweet created successfully: '' @ t_id tweet)))"

definition create_tweet ::
  "twikit_api \<Rightarrow> module_globals \<Rightarrow> string \<Rightarrow> string list option \<Rightarrow> string option
   \<Rightarrow> string io" where
  "create_tweet api g text media_ids poll_uri =
     try_except (create_tweet_try api g text media_ids poll_uri)
       (\<lambda>e. log_and_return (''Failed to create tweet: '' @ str_exn e))"

definition reply_to_tweet_try ::
  "twikit_api \<Rightarrow> module_globals \<Rightarrow> string \<Rightarrow> string \<Rightarrow> string list option \<Rightarrow> string io" where
  "reply_to_tweet_try api g tweet_id text media_ids =
     bind_io (get_twitter_client api g) (\<lambda>client.
     bind_io (call_api (CreateTweet text media_ids None (Some tweet_id))
                (api_create_tweet api client text media_ids None (Some tweet_id))) (\<lambda>tweet.
     return_io (''Reply sent successfully: '' @ t_id tweet)))"

definition reply_to_tweet ::
  "twikit_api \<Rightarrow> module_globals \<Rightarrow> string \<Rightarrow> string \<Rightarrow> string list option \<Rightarrow> string io" where
  "reply_to_tweet api g tweet_id text media_ids =
     try_except (reply_to_tweet_try api g tweet_id text media_ids)
       (\<lambda>e. log_and_return (''Failed to reply to tweet: '' @ str_exn e))"

definition like_tweet_try :: "twikit_api \<Rightarrow> module_globals \<Rightarrow> string \<Rightarrow> string io" where
  "like_tweet_try api g tweet_id =
     bind_io (get_twitter_client api g) (\<lambda>client.
     bind_io (call_api (FavoriteTweet tweet_id) (api_favorite_tweet api client tweet_id)) (\<lambda>_.
     return_io (''Tweet '' @ tweet_id @ '' liked successfully.'')))"

definition like_tweet :: "twikit_api \<Rightarrow> module_globals \<Rightarrow> string \<Rightarrow> string io" where
  "like_tweet api g tweet_id =
     try_except (like_tweet_try api g tweet_id)
       (\<lambda>e. log_and_return (''Failed to like tweet: '' @ str_exn e))"

definition retweet_try :: "twikit_api \<Rightarrow> module_globals \<Rightarrow> string \<Rightarrow> string io" where
  "retweet_try api g tweet_id =
     bind_io (get_twitter_client api g) (\<lambda>client.
     bind_io (call_api (Retweet tweet_id) (api_retweet api client tweet_id)) (\<lambda>_.
     return_io (''Tweet '' @ tweet_id @ '' retweeted successfully.'')))"

definition retweet :: "twikit_api \<Rightarrow> module_globals \<Rightarrow> string \<Rightarrow> string io" where
  "retweet api g tweet_id =
     try_except (retweet_try api g tweet_id)
       (\<lambda>e. log_and_return (''Failed to retweet: '' @ str_exn e))"

definition follow_user_try :: "twikit_api \<Rightarrow> module_globals \<Rightarrow> string \<Rightarrow> string io" where
  "follow_user_try api g username =
     bind_io (get_twitter_client api g) (\<lambda>client.
       let username = lstrip ''@'' username in
       bind_io (call_api (GetUserByScreenName username)
                  (api_get_user_by_screen_name api client username)) (\<lambda>user.
         case user of
           None \<Rightarrow> return_io (''Could not find user '' @ username)
         | Some user \<Rightarrow>
             bind_io (call_api (FollowUser (u_id user)) (api_follow_user api client (u_id user))) (\<lambda>_.
             return_io (''Successfully followed user '' @ username))))"

definition follow_user :: "twikit_api \<Rightarrow> module_globals \<Rightarrow> string \<Rightarrow> string io" where
  "follow_user api g username =
     try_except (follow_user_try api g username)
       (\<lambda>e. log_and_return (''Failed to follow user: '' @ str_exn e))"

definition unfollow_user_try :: "twikit_api \<Rightarrow> module_globals \<Rightarrow> string \<Rightarrow> string io" where
  "unfollow_user_try api g username =
     bind_io (get_twitter_client api g) (\<lambda>client.
       let username = lstrip ''@'' username in
       bind_io (call_api (GetUserByScreenName username)
                  (api_get_user_by_screen_name api client username)) (\<lambda>user.
         case user of
           None \<Rightarrow> return_io (''Could not find user '' @ username)
         | Some user \<Rightarrow>
             bind_io (call_api (UnfollowUser (u_id user)) (api_unfollow_user api client (u_id user))) (\<lambda>_.
             return_io (''Successfully unfollowed user '' @ username))))"

definition unfollow_user :: "twikit_api \<Rightarrow> module_globals \<Rightarrow> string \<Rightarrow> string io" where
  "unfollow_user api g username =
     try_except (unfollow_user_try api g username)
       (\<lambda>e. log_and_return (''Failed to unfollow user: '' @ str_exn e))"

definition block_user_try :: "twikit_api \<Rightarrow> module_globals \<Rightarrow> string \<Rightarrow> string io" where
  "block_user_try api g username =
     bind_io (get_twitter_client api g) (\<lambda>client.
       let username = lstrip ''@'' username in
       bind_io (call_api (GetUserByScreenName username)
                  (api_get_user_by_screen_name api client username)) (\<lambda>user.
         case user of
           None \<Rightarrow> return_io (''Could not find user '' @ username)
         | Some user \<Rightarrow>
             bind_io (call_api (BlockUser (u_id user)) (api_block_user api client (u_id user))) (\<lambda>_.
             return_io (''Successfully blocked user '' @ username))))"

definition block_user :: "twikit_api \<Rightarrow> module_globals \<Rightarrow> string \<Rightarrow> string io" where
  "block_user api g username =
     try_except (block_user_try api g username)
       (\<lambda>e. log_and_return (''Failed to block user: '' @ str_exn e))"

definition unblock_user_try :: "twikit_api \<Rightarrow> module_globals \<Rightarrow> string \<Rightarrow> string io" where
  "unblock_user_try api g username =
     bind_io (get_twitter_client api g) (\<lambda>client.
       let username = lstrip ''@'' username in
       bind_io (call_api (GetUserByScreenName username)
                  (api_get_user_by_screen_name api client username)) (\<lambda>user.
         case user of
           None \<Rightarrow> return_io (''Could not find user '' @ username)
         | Some user \<Rightarrow>
             bind_io (call_api (UnblockUser (u_id user)) (api_unblock_user api client (u_id user))) (\<lambda>_.
             return_io (''Successfully unblocked user '' @ username))))"

definition unblock_user :: "twikit_api \<Rightarrow> module_globals \<Rightarrow> string \<Rightarrow> string io" where
  "unblock_user api g username =
     try_except (unblock_user_try api g username)
       (\<lambda>e. log_and_return (''Failed to unblock user: '' @ str_exn e))"

text \<open>The eleven lines of \<open>user_info\<close> (lines 342 to 354).\<close>

definition user_info :: "user \<Rightarrow> string" where
  "user_info user =
     ''ID: '' @ u_id user @ NL
     @ ''Name: '' @ u_name user @ NL
     @ ''Screen Name: '' @ u_screen_name user @ NL
     @ ''Description: '' @ u_description user @ NL
     @ ''Verified: '' @ str_bool (u_verified user) @ NL
     @ ''Followers Count: '' @ str_int (u_followers_count user) @ NL
     @ ''Following Count: '' @ str_int (u_following_count user) @ NL
     @ ''Location: '' @ u_location user @ NL
     @ ''Created At: '' @ u_created_at user @ NL
     @ ''Profile Image URL: '' @ u_profile_image_url user @ NL
     @ ''Profile Banner URL: '' @ u_profile_banner_url user @ NL"

definition get_user_by_screen_name_try ::
  "twikit_api \<Rightarrow> module_globals \<Rightarrow> string \<Rightarrow> string io" where
  "get_user_by_screen_name_try api g username =
     bind_io (get_twitter_client api g) (\<lambda>client.
       let username = lstrip ''@'' username in
       bind_io (call_api (GetUserByScreenName username)
                  (api_get_user_by_screen_name api client username)) (\<lambda>user.
         case user of
           None \<Rightarrow> return_io (''Could not find user with screen name '' @ username)
         | Some user \<Rightarrow> return_io (user_info user)))"

definition get_user_by_screen_name ::
  "twikit_api \<Rightarrow> module_globals \<Rightarrow> string \<Rightarrow> string io" where
  "get_user_by_screen_name api g username =
     try_except (get_user_by_screen_name_try api g username)
       (\<lambda>e. log_and_return (''Failed to retrieve user by screen name: '' @ str_exn e))"

text \<open>
  The item of the followers and following lists. In these two tools the handler prints
  \<open>username\<close>, which the \<^verbatim>\<open>try\<close> block rebinds after \<open>get_twitter_client\<close>; \<open>f_rest\<close>
  is the block from the rebinding on.
\<close>

definition user_line :: "user \<Rightarrow> string" where
  "user_line follower = ''  - @'' @ u_screen_name follower @ '' (ID: '' @ u_id follower @ '')''"

definition get_user_followers_rest :: "twikit_api \<Rightarrow> string \<Rightarrow> int \<Rightarrow> client \<Rightarrow> string io" where
  "get_user_followers_rest api username count client =
     bind_io (call_api (GetUserByScreenName username)
                (api_get_user_by_screen_name api client username)) (\<lambda>user.
       case user of
         None \<Rightarrow> return_io (''Could not find user '' @ username)
       | Some user \<Rightarrow>
           bind_io (call_api (GetUserFollowers (u_id user) count)
                      (api_get_user_followers api client (u_id user) count)) (\<lambda>followers.
           return_io (''Followers of '' @ username @ '':'' @ NL
                      @ join NL (map user_line followers))))"

definition get_user_followers_try :: "twikit_api \<Rightarrow> module_globals \<Rightarrow> string \<Rightarrow> int \<Rightarrow> string io" where
  "get_user_followers_try api g username count =
     bind_io (get_twitter_client api g)
       (get_user_followers_rest api (lstrip ''@'' username) count)"

definition get_user_followers :: "twikit_api \<Rightarrow> module_globals \<Rightarrow> string \<Rightarrow> int \<Rightarrow> string io" where
  "get_user_followers api g username count =
     try_except_rebind (get_twitter_client api g)
       (\<lambda>e. log_and_return (''Failed to get followers for user '' @ username @ '': '' @ str_exn e))
       (get_user_followers_rest api (lstrip ''@'' username) count)
       (\<lambda>e. log_and_return
              (''Failed to get followers for user '' @ lstrip ''@'' username @ '': '' @ str_exn e))"

definition get_user_following_rest :: "twikit_api \<Rightarrow> string \<Rightarrow> int \<Rightarrow> client \<Rightarrow> string io" where
  "get_user_following_rest api username count client =
     bind_io (call_api (GetUserByScreenName username)
                (api_get_user_by_screen_name api client username)) (\<lambda>user.
       case user of
         None \<Rightarrow> return_io (''Could not find user '' @ username)
       | Some user \<Rightarrow>
           bind_io (call_api (GetUserFollowing (u_id user) count)
                      (api_get_user_following api client (u_id user) count)) (\<lambda>following.
           return_io (''Users followed by '' @ username @ '':'' @ NL
                      @ join NL (map user_line following))))"

definition get_user_following_try :: "twikit_api \<Rightarrow> module_globals \<Rightarrow> string \<Rightarrow> int \<Rightarrow> string io" where
  "get_user_following_try api g username count =
     bind_io (get_twitter_client api g)
       (get_user_following_rest api (lstrip ''@'' username) count)"

definition get_user_following :: "twikit_api \<Rightarrow> module_globals \<Rightarrow> string \<Rightarrow> int \<Rightarrow> string io" where
  "get_user_following api g username count =
     try_except_rebind (get_twitter_client api g)
       (\<lambda>e. log_and_return (''Failed to get following list for user '' @ username @ '': '' @ str_exn e))
       (get_user_following_rest api (lstrip ''@'' username) count)
       (\<lambda>e. log_and_return
              (''Failed to get following list for user '' @ lstrip ''@'' username @ '': '' @ str_exn e))"

definition send_dm_try ::
  "twikit_api \<Rightarrow> module_globals \<Rightarrow> string \<Rightarrow> string \<Rightarrow> string option \<Rightarrow> string io" where
  "send_dm_try api g user_id text media_id =
     bind_io (get_twitter_client api g) (\<lambda>client.
     bind_io (call_api (SendDm user_id text media_id)
                (api_send_dm api client user_id text media_id)) (\<lambda>message.
     return_io (''Direct message sent successfully: '' @ m_id message)))"

definition send_dm ::
  "twikit_api \<Rightarrow> module_globals \<Rightarrow> string \<Rightarrow> string \<Rightarrow> string option \<Rightarrow> string io" where
  "send_dm api g user_id text media_id =
     try_except (send_dm_try api g user_id text media_id)
       (\<lambda>e. log_and_return (''Failed to send DM: '' @ str_exn e))"

definition trend_line :: "trend \<Rightarrow> string" where
  "trend_line trend =
     ''  - '' @ tr_name trend @ '' (Tweets: '' @ str_int (tr_tweets_count trend) @ '')''"

definition get_trends_try ::
  "twikit_api \<Rightarrow> module_globals \<Rightarrow> string \<Rightarrow> int \<Rightarrow> string io" where
  "get_trends_try api g category count =
     bind_io (get_twitter_client api g) (\<lambda>client.
     bind_io (call_api (GetTrends category count)
                (api_get_trends api client category count)) (\<lambda>trends.
     return_io (''Trends in '' @ category @ '':'' @ NL @ join NL (map trend_line trends))))"

definition get_trends ::
  "twikit_api \<Rightarrow> module_globals \<Rightarrow> string \<Rightarrow> int \<Rightarrow> string io" where
  "get_trends api g category count =
     try_except (get_trends_try api g category count)
       (\<lambda>e. log_and_return (''Failed to get trends: '' @ str_exn e))"


subsection \<open>The tool surface\<close>

text \<open>One invocation of an active tool, with the arguments the caller passes.\<close>

datatype tool_call =
    Tool_search_twitter string string int
  | Tool_get_user_tweets string string int
  | Tool_get_timeline int
  | Tool_get_latest_timeline int
  | Tool_create_tweet string "string list option" "string option"
  | Tool_reply_to_tweet string string "string list option"
  | Tool_like_tweet string
  | Tool_retweet string
  | Tool_follow_user string
  | Tool_unfollow_user string
  | Tool_block_user string
  | Tool_unblock_user string
  | Tool_get_user_by_screen_name string
  | Tool_get_user_followers string int
  | Tool_get_user_following string int
  | Tool_send_dm string string "string option"
  | Tool_get_trends string int

fun run_tool :: "twikit_api \<Rightarrow> module_globals \<Rightarrow> tool_call \<Rightarrow> string io" where
  "run_tool api g (Tool_search_twitter q sort_by n) = search_twitter api g q sort_by n"
| "run_tool api g (Tool_get_user_tweets u ty n) = get_user_tweets api g u ty n"
| "run_tool api g (Tool_get_timeline n) = get_timeline api g n"
| "run_tool api g (Tool_get_latest_timeline n) = get_latest_timeline api g n"
| "run_tool api g (Tool_create_tweet tx ms pu) = create_tweet api g tx ms pu"
| "run_tool api g (Tool_reply_to_tweet i tx ms) = reply_to_tweet api g i tx ms"
| "run_tool api g (Tool_like_tweet i) = like_tweet api g i"
| "run_tool api g (Tool_retweet i) = retweet api g i"
| "run_tool api g (Tool_follow_user u) = follow_user api g u"
| "run_tool api g (Tool_unfollow_user u) = unfollow_user api g u"
| "run_tool api g (Tool_block_user u) = block_user api g u"
| "run_tool api g (Tool_unblock_user u) = unblock_user api g u"
| "run_tool api g (Tool_get_user_by_screen_name u) = get_user_by_screen_name api g u"
| "run_tool api g (Tool_get_user_followers u n) = get_user_followers api g u n"
| "run_tool api g (Tool_get_user_following u n) = get_user_following api g u n"
| "run_tool api g (Tool_send_dm i tx m) = send_dm api g i tx m"
| "run_tool api g (Tool_get_trends c n) = get_trends api g c n"

text \<open>The \<^verbatim>\<open>try\<close> block of the invoked tool.\<close>

fun run_tool_try :: "twikit_api \<Rightarrow> module_globals \<Rightarrow> tool_call \<Rightarrow> string io" where
  "run_tool_try api g (Tool_search_twitter q sort_by n) = search_twitter_try api g q sort_by n"
| "run_tool_try api g (Tool_get_user_tweets u ty n) = get_user_tweets_try api g u ty n"
| "run_tool_try api g (Tool_get_timeline n) = get_timeline_try api g n"
| "run_tool_try api g (Tool_get_latest_timeline n) = get_latest_timeline_try api g n"
| "run_tool_try api g (Tool_create_tweet tx ms pu) = create_tweet_try api g tx ms pu"
| "run_tool_try api g (Tool_reply_to_tweet i tx ms) = reply_to_tweet_try api g i tx ms"
| "run_tool_try api g (Tool_like_tweet i) = like_tweet_try api g i"
| "run_tool_try api g (Tool_retweet i) = retweet_try api g i"
| "run_tool_try api g (Tool_follow_user u) = follow_user_try api g u"
| "run_tool_try api g (Tool_unfollow_user u) = unfollow_user_try api g u"
| "run_tool_try api g (Tool_block_user u) = block_user_try api g u"
| "run_tool_try api g (Tool_unblock_user u) = unblock_user_try api g u"
| "run_tool_try api g (Tool_get_user_by_screen_name u) = get_user_by_screen_name_try api g u"
| "run_tool_try api g (Tool_get_user_followers u n) = get_user_followers_try api g u n"
| "run_tool_try api g (Tool_get_user_following u n) = get_user_following_try api g u n"
| "run_tool_try api g (Tool_send_dm i tx m) = send_dm_try api g i tx m"
| "run_tool_try api g (Tool_get_trends c n) = get_trends_try api g c n"

text \<open>
  The words each handler puts between \<open>Failed to\<close> and the colon, with the arguments
  of the invocation as the caller passed them.
\<close>

fun action :: "tool_call \<Rightarrow> string" where
  "action (Tool_search_twitter q sort_by n) = ''search tweets''"
| "action (Tool_get_user_tweets u ty n) = ''get user tweets''"
| "action (Tool_get_timeline n) = ''get timeline''"
| "action (Tool_get_latest_timeline n) = ''get latest timeline''"
| "action (Tool_create_tweet tx ms pu) = ''create tweet''"
| "action (Tool_reply_to_tweet i tx ms) = ''reply to tweet''"
| "action (Tool_like_tweet i) = ''like tweet''"
| "action (Tool_retweet i) = ''retweet''"
| "action (Tool_follow_user u) = ''follow user''"
| "action (Tool_unfollow_user u) = ''unfollow user''"
| "action (Tool_block_user u) = ''block user''"
| "action (Tool_unblock_user u) = ''unblock user''"
| "action (Tool_get_user_by_screen_name u) = ''retrieve user by screen name''"
| "action (Tool_get_user_followers u n) = ''get followers for user '' @ u"
| "action (Tool_get_user_following u n) = ''get following list for user '' @ u"
| "action (Tool_send_dm i tx m) = ''send DM''"
| "action (Tool_get_trends c n) = ''get trends''"

text \<open>The same words once the \<^verbatim>\<open>try\<close> block has rebound \<open>username\<close>.\<close>

fun action_rebound :: "tool_call \<Rightarrow> string" where
  "action_rebound (Tool_get_user_followers u n) = ''get followers for user '' @ lstrip ''@'' u"
| "action_rebound (Tool_get_user_following u n) =
     ''get following list for user '' @ lstrip ''@'' u"
| "action_rebound t = action t"

text \<open>The tools that take a username, with their other arguments.\<close>

datatype username_tool =
    U_get_user_tweets string int
  | U_follow_user
  | U_unfollow_user
  | U_block_user
  | U_unblock_user
  | U_get_user_by_screen_name
  | U_get_user_followers int
  | U_get_user_following int

fun username_call :: "username_tool \<Rightarrow> string \<Rightarrow> tool_call" where
  "username_call (U_get_user_tweets ty n) u = Tool_get_user_tweets u ty n"
| "username_call U_follow_user u = Tool_follow_user u"
| "username_call U_unfollow_user u = Tool_unfollow_user u"
| "username_call U_block_user u = Tool_block_user u"
| "username_call U_unblock_user u = Tool_unblock_user u"
| "username_call U_get_user_by_screen_name u = Tool_get_user_by_screen_name u"
| "username_call (U_get_user_followers n) u = Tool_get_user_followers u n"
| "username_call (U_get_user_following n) u = Tool_get_user_following u n"

text \<open>The screen names looked up in a record of calls, in order.\<close>

fun lookups :: "call list \<Rightarrow> string list" where
  "lookups [] = []"
| "lookups (GetUserByScreenName u # cs) = u # lookups cs"
| "lookups (c # cs) = lookups cs"

subsection \<open>A stub client and a start state\<close>

text \<open>
  A stub service for concrete runs: \<open>login\<close> and the screen-name lookup answer as
  given, the list methods answer with the given tweets or with no item, the others
  raise.
\<close>

definition stub_api :: "exn + cookies \<Rightarrow> exn + user option \<Rightarrow> tweet list \<Rightarrow> twikit_api" where
  "stub_api login_answer lookup_answer tweets =
     \<lparr>api_login = (\<lambda>c a1 a2 pw. login_answer),
      api_search_tweet = (\<lambda>c q p n. Inr tweets),
      api_get_user_by_screen_name = (\<lambda>c u. lookup_answer),
      api_get_user_tweets = (\<lambda>c u ty n. Inr tweets),
      api_get_timeline = (\<lambda>c n. Inr tweets),
      api_get_latest_timeline = (\<lambda>c n. Inr tweets),
      api_create_tweet = (\<lambda>c tx ms pu r. Inl (Exception ''rate limit'')),
      api_favorite_tweet = (\<lambda>c i. Inl (Exception ''rate limit'')),
      api_retweet = (\<lambda>c i. Inl (Exception ''rate limit'')),
      api_follow_user = (\<lambda>c i. Inl (Exception ''rate limit'')),
      api_unfollow_user = (\<lambda>c i. Inl (Exception ''rate limit'')),
      api_block_user = (\<lambda>c i. Inl (Exception ''rate limit'')),
      api_unblock_user = (\<lambda>c i. Inl (Exception ''rate limit'')),
      api_get_user_followers = (\<lambda>c i n. Inr []),
      api_get_user_following = (\<lambda>c i n. Inr []),
      api_send_dm = (\<lambda>c i tx m. Inl (Exception ''rate limit'')),
      api_get_trends = (\<lambda>c cat n. Inr [])\<rparr>"

definition home0 :: path where
  "home0 = [''home'', ''u'']"

definition env0 :: "string \<rightharpoonup> string" where
  "env0 = [''TWITTER_USERNAME'' \<mapsto> ''alice'', ''TWITTER_EMAIL'' \<mapsto> ''a@x.org'',
           ''TWITTER_PASSWORD'' \<mapsto> ''pw'']"

text \<open>A process with no cookie file and no \<^verbatim>\<open>.mcp-twikit\<close> directory yet.\<close>

definition world0 :: world where
  "world0 = \<lparr>environ = env0, fs_dirs = {[], [''home''], [''home'', ''u'']},
             fs_files = Map.empty, logged = [], calls = []\<rparr>"

text \<open>The same process after an earlier run has stored a session.\<close>

definition world1 :: world where
  "world1 = world0\<lparr>fs_dirs := insert [''home'', ''u'', ''.mcp-twikit''] (fs_dirs world0),
                    fs_files := [[''home'', ''u'', ''.mcp-twikit'', ''cookies.json'']
                                   \<mapsto> [(''auth_token'', ''t0'')]]\<rparr>"

text \<open>A process where a regular file named \<^verbatim>\<open>.mcp-twikit\<close> lies in the home directory.\<close>

definition world2 :: world where
  "world2 = world0\<lparr>fs_files := [[''home'', ''u'', ''.mcp-twikit''] \<mapsto> []]\<rparr>"

definition user_a :: user where
  "user_a = \<lparr>u_id = ''1'', u_name = ''A'', u_screen_name = ''a'', u_description = [],
             u_verified = False, u_followers_count = 0, u_following_count = 0,
             u_location = [], u_created_at = ''T0'', u_profile_image_url = [],
             u_profile_banner_url = []\<rparr>"

definition two_tweets :: "tweet list" where
  "two_tweets =
     [\<lparr>t_id = ''10'', t_user = user_a, t_created_at = ''T1'', t_text = ''hi''\<rparr>,
      \<lparr>t_id = ''11'', t_user = user_a\<lparr>u_id := ''2'', u_name := ''B'', u_screen_name := ''b''\<rparr>,
       t_created_at = ''T2'', t_text = ''yo''\<rparr>]"

section \<open>Properties\<close>

subsection \<open>Formatting a list of tweets\<close>

lemma markdown_loop_append: "markdown_loop tweets acc = acc @ map tweet_text tweets"
  by (induction tweets arbitrary: acc) auto

text \<open>
  Claim C5. \<open>convert_tweets_to_markdown\<close> renders each tweet as
  \<open>**@screen_name** - created_at\<close>, a newline and the text of the tweet, and puts an
  empty line between two items: no tweet gives the empty string, one tweet gives its
  item, and a longer list gives the first item, two newlines and the rendering of the
  rest. For the tweets of a at T1 saying hi and of b at T2 saying yo the result is
  \<open>**@a** - T1\<close>, newline, \<open>hi\<close>, two newlines, \<open>**@b** - T2\<close>, newline, \<open>yo\<close>.
\<close>

theorem convert_tweets_to_markdown_format:
  "convert_tweets_to_markdown [] = []
   \<and> convert_tweets_to_markdown [tw] =
       ''**@'' @ u_screen_name (t_user tw) @ ''** - '' @ t_created_at tw @ NL @ t_text tw
   \<and> convert_tweets_to_markdown (tw # tw' # tws) =
       convert_tweets_to_markdown [tw] @ NL @ NL @ convert_tweets_to_markdown (tw' # tws)
   \<and> convert_tweets_to_markdown two_tweets =
       ''**@a** - T1'' @ NL @ ''hi'' @ NL @ NL @ ''**@b** - T2'' @ NL @ ''yo''"
  by (simp add: convert_tweets_to_markdown_def markdown_loop_append tweet_text_def
        two_tweets_def user_a_def)

subsection \<open>Sequencing and handlers\<close>

lemma bind_io_Inl: "m w = (Inl e, w') \<Longrightarrow> bind_io m f w = (Inl e, w')"
  by (simp add: bind_io_def)

lemma bind_io_Inr: "m w = (Inr x, w') \<Longrightarrow> bind_io m f w = f x w'"
  by (simp add: bind_io_def)

lemma try_except_Inl: "m w = (Inl e, w') \<Longrightarrow> try_except m h w = h e w'"
  by (simp add: try_except_def)

lemma try_except_Inr: "m w = (Inr x, w') \<Longrightarrow> try_except m h w = (Inr x, w')"
  by (simp add: try_except_def)

lemma log_and_return_eq:
  "log_and_return s w = (Inr s, w\<lparr>logged := logged w @ [s]\<rparr>)"
  by (simp add: log_and_return_def bind_io_def logger_error_def return_io_def)

subsection \<open>Session acquisition\<close>

lemma path_not_own_ancestor: "p \<noteq> [] \<Longrightarrow> p \<notin> set (prefixes (parent p))"
proof
  assume ne: "p \<noteq> []" and "p \<in> set (prefixes (parent p))"
  then have "prefix p (butlast p)" by (simp add: parent_def)
  then have "length p \<le> length (butlast p)" by (rule prefix_length_le)
  with ne show False by (cases p rule: rev_cases) auto
qed

lemma parent_in_own_prefixes: "parent p \<in> set (prefixes (parent p))"
  by simp

lemma gtc_file:
  assumes "fs_files w (COOKIES_PATH g) = Some ck"
  shows "get_twitter_client api g w =
           (Inr ((twikit_Client ''en-US'' (USER_AGENT g))\<lparr>cookie_jar := ck\<rparr>),
            w\<lparr>calls := calls w @ [LoadCookies (COOKIES_PATH g)]\<rparr>)"
  using assms
  by (simp add: get_twitter_client_def Let_def bind_io_def path_exists_def load_cookies_def)

lemma gtc_exists:
  assumes "COOKIES_PATH g \<in> fs_dirs w \<or> fs_files w (COOKIES_PATH g) \<noteq> None"
  shows "get_twitter_client api g w =
           load_cookies (twikit_Client ''en-US'' (USER_AGENT g)) (COOKIES_PATH g) w"
  using assms
  by (auto simp add: get_twitter_client_def Let_def bind_io_def path_exists_def)

lemma gtc_login_fails:
  assumes "COOKIES_PATH g \<notin> fs_dirs w" "fs_files w (COOKIES_PATH g) = None"
    and "api_login api (twikit_Client ''en-US'' (USER_AGENT g))
           (USERNAME g) (EMAIL g) (PASSWORD g) = Inl e"
  shows "get_twitter_client api g w =
           (Inl e, w\<lparr>calls := calls w @ [Login (USERNAME g) (EMAIL g) (PASSWORD g)],
                     logged := logged w @ [''Failed to login: '' @ str_exn e]\<rparr>)"
  using assms
  by (simp add: get_twitter_client_def Let_def bind_io_def path_exists_def login_def
      call_api_def try_except_def logger_error_def raise_io_def)

lemma gtc_login_ok:
  assumes "COOKIES_PATH g \<notin> fs_dirs w" "fs_files w (COOKIES_PATH g) = None"
    and "COOKIES_PATH g \<noteq> []"
    and "api_login api (twikit_Client ''en-US'' (USER_AGENT g))
           (USERNAME g) (EMAIL g) (PASSWORD g) = Inr ck"
    and "\<not> list_ex (\<lambda>q. fs_files w q \<noteq> None) (prefixes (parent (COOKIES_PATH g)))"
  shows "get_twitter_client api g w =
           (Inr ((twikit_Client ''en-US'' (USER_AGENT g))\<lparr>cookie_jar := ck\<rparr>),
            w\<lparr>calls := calls w @ [Login (USERNAME g) (EMAIL g) (PASSWORD g),
                                    SaveCookies (COOKIES_PATH g)],
              fs_dirs := fs_dirs w \<union> set (prefixes (parent (COOKIES_PATH g))),
              fs_files := (fs_files w)(COOKIES_PATH g \<mapsto> ck)\<rparr>)"
  using assms path_not_own_ancestor [of "COOKIES_PATH g"]
    parent_in_own_prefixes [of "COOKIES_PATH g"]
  by (simp add: get_twitter_client_def Let_def bind_io_def path_exists_def login_def
      call_api_def try_except_def return_io_def mkdir_parents_def save_cookies_def
      del: in_set_prefixes)

text \<open>
  Claim C2. When the cookie file exists at \<open>COOKIES_PATH\<close>, \<open>get_twitter_client\<close>
  returns a new client that holds the stored cookies, and the only client method it
  calls is \<open>load_cookies\<close>: no \<open>login\<close> is among the calls it makes.
\<close>

theorem get_twitter_client_loads_without_login:
  assumes "fs_files w (COOKIES_PATH g) = Some ck"
  shows "get_twitter_client api g w =
           (Inr ((twikit_Client ''en-US'' (USER_AGENT g))\<lparr>cookie_jar := ck\<rparr>),
            w\<lparr>calls := calls w @ [LoadCookies (COOKIES_PATH g)]\<rparr>)
         \<and> Login a1 a2 pw
             \<notin> set (drop (length (calls w)) (calls (snd (get_twitter_client api g w))))"
  using assms by (simp add: gtc_file)

theorem get_twitter_client_loads_without_login_witness:
  "fst (get_twitter_client (stub_api (Inl (Exception ''bad password'')) (Inr None) [])
          (module_init home0 env0) world1)
     = Inr \<lparr>language = ''en-US'', user_agent = None, cookie_jar = [(''auth_token'', ''t0'')]\<rparr>
   \<and> calls (snd (get_twitter_client (stub_api (Inl (Exception ''bad password'')) (Inr None) [])
          (module_init home0 env0) world1))
     = [LoadCookies [''home'', ''u'', ''.mcp-twikit'', ''cookies.json'']]"
  using get_twitter_client_loads_without_login
          [of world1 "module_init home0 env0" "[(''auth_token'', ''t0'')]"
              "stub_api (Inl (Exception ''bad password'')) (Inr None) []"]
  by (simp add: world1_def world0_def module_init_def home0_def env0_def twikit_Client_def)

text \<open>
  Claim C3, as stated, fails. Nothing exists at \<open>home/.mcp-twikit/cookies.json\<close>
  and the login succeeds, but \<open>.mcp-twikit\<close> is a regular file: \<open>mkdir\<close> raises
  after the login, \<open>get_twitter_client\<close> raises, no cookie file is written and
  \<open>.mcp-twikit\<close> is not a directory.
\<close>

theorem get_twitter_client_persists_session_counterexample:
  "[''home'', ''u'', ''.mcp-twikit'', ''cookies.json''] \<notin> fs_dirs world2
   \<and> fs_files world2 [''home'', ''u'', ''.mcp-twikit'', ''cookies.json''] = None
   \<and> get_twitter_client (stub_api (Inr [(''auth_token'', ''t1'')]) (Inr None) [])
        (module_init home0 env0) world2
     = (Inl (Exception ''[Errno 17] File exists''),
        world2\<lparr>calls := [Login (Some ''alice'') (Some ''a@x.org'') (Some ''pw'')]\<rparr>)
   \<and> fs_files (snd (get_twitter_client (stub_api (Inr [(''auth_token'', ''t1'')]) (Inr None) [])
                      (module_init home0 env0) world2))
        [''home'', ''u'', ''.mcp-twikit'', ''cookies.json''] = None
   \<and> [''home'', ''u'', ''.mcp-twikit'']
       \<notin> fs_dirs (snd (get_twitter_client (stub_api (Inr [(''auth_token'', ''t1'')]) (Inr None) [])
                         (module_init home0 env0) world2))"
  by (simp add: get_twitter_client_def Let_def bind_io_def try_except_def path_exists_def
      login_def call_api_def return_io_def mkdir_parents_def parent_def twikit_Client_def
      stub_api_def module_init_def home0_def env0_def world2_def world0_def)

text \<open>
  Claim C3, amended. When nothing exists at \<open>COOKIES_PATH\<close>, no regular file lies
  at \<open>home/.mcp-twikit\<close> or at one of its ancestors, and the login succeeds,
  \<open>get_twitter_client\<close> returns the logged-in client in a state where the cookie
  file exists at \<open>home/.mcp-twikit/cookies.json\<close> and holds the cookies of the
  login, where \<open>home/.mcp-twikit\<close> and every ancestor of it is a directory, and
  where the directories that existed before still exist.
\<close>

theorem get_twitter_client_persists_session:
  assumes "g = module_init home env"
    and "COOKIES_PATH g \<notin> fs_dirs w" and "fs_files w (COOKIES_PATH g) = None"
    and "\<forall>q. prefix q (home @ [''.mcp-twikit'']) \<longrightarrow> fs_files w q = None"
    and "api_login api (twikit_Client ''en-US'' (USER_AGENT g))
           (USERNAME g) (EMAIL g) (PASSWORD g) = Inr ck"
    and "get_twitter_client api g w = (r, w')"
  shows "r = Inr ((twikit_Client ''en-US'' (USER_AGENT g))\<lparr>cookie_jar := ck\<rparr>)
         \<and> COOKIES_PATH g = home @ [''.mcp-twikit'', ''cookies.json'']
         \<and> fs_files w' (home @ [''.mcp-twikit'', ''cookies.json'']) = Some ck
         \<and> home @ [''.mcp-twikit''] \<in> fs_dirs w'
         \<and> set (prefixes (home @ [''.mcp-twikit''])) \<subseteq> fs_dirs w'
         \<and> fs_dirs w \<subseteq> fs_dirs w'
         \<and> calls w' = calls w @ [Login (USERNAME g) (EMAIL g) (PASSWORD g),
                                   SaveCookies (COOKIES_PATH g)]"
proof -
  have p: "COOKIES_PATH g = home @ [''.mcp-twikit'', ''cookies.json'']"
    by (simp add: assms(1) module_init_def)
  have par: "parent (COOKIES_PATH g) = home @ [''.mcp-twikit'']"
    by (simp add: p parent_def butlast_append)
  have ne: "COOKIES_PATH g \<noteq> []" by (simp add: p)
  have free: "\<not> list_ex (\<lambda>q. fs_files w q \<noteq> None) (prefixes (parent (COOKIES_PATH g)))"
    unfolding par using assms(4) by (auto simp: list_ex_iff)
  note run = gtc_login_ok [OF assms(2) assms(3) ne assms(5) free]
  from run assms(6) have r: "r = Inr ((twikit_Client ''en-US'' (USER_AGENT g))\<lparr>cookie_jar := ck\<rparr>)"
    and w': "w' = w\<lparr>calls := calls w @ [Login (USERNAME g) (EMAIL g) (PASSWORD g),
                                    SaveCookies (COOKIES_PATH g)],
              fs_dirs := fs_dirs w \<union> set (prefixes (parent (COOKIES_PATH g))),
              fs_files := (fs_files w)(COOKIES_PATH g \<mapsto> ck)\<rparr>"
    by simp_all
  have f: "fs_files w' (home @ [''.mcp-twikit'', ''cookies.json'']) = Some ck"
    by (simp add: w' p)
  have d: "fs_dirs w' = fs_dirs w \<union> set (prefixes (home @ [''.mcp-twikit'']))"
    by (simp add: w' par)
  have c: "calls w' = calls w @ [Login (USERNAME g) (EMAIL g) (PASSWORD g),
                                   SaveCookies (COOKIES_PATH g)]"
    by (simp add: w')
  have m: "home @ [''.mcp-twikit''] \<in> fs_dirs w'"
    unfolding d by simp
  from r p f m d c show ?thesis by blast
qed

theorem get_twitter_client_persists_session_witness:
  "fs_files (snd (get_twitter_client (stub_api (Inr [(''auth_token'', ''t1'')]) (Inr None) [])
                    (module_init home0 env0) world0))
       [''home'', ''u'', ''.mcp-twikit'', ''cookies.json'']
     = Some [(''auth_token'', ''t1'')]
   \<and> [''home'', ''u'', ''.mcp-twikit'']
       \<in> fs_dirs (snd (get_twitter_client (stub_api (Inr [(''auth_token'', ''t1'')]) (Inr None) [])
                         (module_init home0 env0) world0))
   \<and> [''home'', ''u'', ''.mcp-twikit''] \<notin> fs_dirs world0"
  using get_twitter_client_persists_session
          [of "module_init home0 env0" home0 env0 world0
              "stub_api (Inr [(''auth_token'', ''t1'')]) (Inr None) []"
              "[(''auth_token'', ''t1'')]"
              "fst (get_twitter_client (stub_api (Inr [(''auth_token'', ''t1'')]) (Inr None) [])
                      (module_init home0 env0) world0)"
              "snd (get_twitter_client (stub_api (Inr [(''auth_token'', ''t1'')]) (Inr None) [])
                      (module_init home0 env0) world0)"]
  by (simp add: world0_def module_init_def home0_def env0_def stub_api_def)

text \<open>
  Claim C9. When something exists at \<open>COOKIES_PATH\<close>, \<open>get_twitter_client\<close> leaves
  the file system as it was: the cookie files and the directories are the same
  afterwards, and the one client method it calls is \<open>load_cookies\<close>, so neither
  \<open>save_cookies\<close> nor \<open>mkdir\<close> runs.
\<close>

theorem get_twitter_client_reuse_writes_nothing:
  assumes "COOKIES_PATH g \<in> fs_dirs w \<or> fs_files w (COOKIES_PATH g) \<noteq> None"
  shows "fs_files (snd (get_twitter_client api g w)) = fs_files w
         \<and> fs_dirs (snd (get_twitter_client api g w)) = fs_dirs w
         \<and> calls (snd (get_twitter_client api g w)) = calls w @ [LoadCookies (COOKIES_PATH g)]"
  by (simp add: gtc_exists [OF assms] load_cookies_def split: option.splits)

theorem get_twitter_client_reuse_writes_nothing_witness:
  "fs_files (snd (get_twitter_client (stub_api (Inr [(''auth_token'', ''t1'')]) (Inr None) [])
                    (module_init home0 env0) world1))
       [''home'', ''u'', ''.mcp-twikit'', ''cookies.json'']
     = Some [(''auth_token'', ''t0'')]
   \<and> fs_dirs (snd (get_twitter_client (stub_api (Inr [(''auth_token'', ''t1'')]) (Inr None) [])
                    (module_init home0 env0) world1)) = fs_dirs world1"
  using get_twitter_client_reuse_writes_nothing
          [of "module_init home0 env0" world1
              "stub_api (Inr [(''auth_token'', ''t1'')]) (Inr None) []"]
  by (simp add: world1_def world0_def module_init_def home0_def)

lemma gtc_user_agent:
  "get_twitter_client api g w = (Inr c, w1) \<Longrightarrow> user_agent c = USER_AGENT g"
  by (auto simp: get_twitter_client_def Let_def bind_io_def path_exists_def load_cookies_def
      login_def call_api_def try_except_def logger_error_def raise_io_def return_io_def
      mkdir_parents_def save_cookies_def twikit_Client_def
      split: option.splits sum.splits if_splits)

lemma gtc_environ:
  "get_twitter_client api g (w\<lparr>environ := env'\<rparr>) =
     (fst (get_twitter_client api g w), (snd (get_twitter_client api g w))\<lparr>environ := env'\<rparr>)"
  by (simp add: get_twitter_client_def Let_def bind_io_def path_exists_def load_cookies_def
      login_def call_api_def try_except_def logger_error_def raise_io_def return_io_def
      mkdir_parents_def save_cookies_def split: option.splits sum.splits)

subsection \<open>The tools under their handlers\<close>

lemmas tool_try_defs =
  search_twitter_try_def get_user_tweets_try_def get_timeline_try_def
  get_latest_timeline_try_def create_tweet_try_def reply_to_tweet_try_def
  like_tweet_try_def retweet_try_def follow_user_try_def unfollow_user_try_def
  block_user_try_def unblock_user_try_def get_user_by_screen_name_try_def
  get_user_followers_try_def get_user_following_try_def send_dm_try_def get_trends_try_def

lemmas tool_defs =
  search_twitter_def get_user_tweets_def get_timeline_def
  get_latest_timeline_def create_tweet_def reply_to_tweet_def
  like_tweet_def retweet_def follow_user_def unfollow_user_def
  block_user_def unblock_user_def get_user_by_screen_name_def
  get_user_followers_def get_user_following_def send_dm_def get_trends_def




lemma try_except_rebind_Inl:
  "m w = (Inl e, w') \<Longrightarrow> try_except_rebind m h1 f h2 w = h1 e w'"
  by (simp add: try_except_rebind_def)

lemma try_except_rebind_Inr:
  "m w = (Inr x, w') \<Longrightarrow> try_except_rebind m h1 f h2 w = try_except (f x) h2 w'"
  by (simp add: try_except_rebind_def)

lemma try_except_rebind_returns:
  "bind_io m f w = (Inr s, w') \<Longrightarrow> try_except_rebind m h1 f h2 w = (Inr s, w')"
  by (auto simp: bind_io_def try_except_rebind_def try_except_def split: prod.splits sum.splits)

lemma try_except_rebind_raises:
  assumes "bind_io m f w = (Inl e, w')"
  shows "try_except_rebind m (\<lambda>e. log_and_return (p1 @ str_exn e)) f
           (\<lambda>e. log_and_return (p2 @ str_exn e)) w
           = (Inr (p1 @ str_exn e), w'\<lparr>logged := logged w' @ [p1 @ str_exn e]\<rparr>)
         \<or> try_except_rebind m (\<lambda>e. log_and_return (p1 @ str_exn e)) f
           (\<lambda>e. log_and_return (p2 @ str_exn e)) w
           = (Inr (p2 @ str_exn e), w'\<lparr>logged := logged w' @ [p2 @ str_exn e]\<rparr>)"
  using assms
  by (auto simp: bind_io_def try_except_rebind_def try_except_def log_and_return_eq
      split: prod.splits sum.splits)

text \<open>An exception of \<open>get_twitter_client\<close> reaches the handler of the tool.\<close>

lemma run_tool_client_raises:
  assumes "get_twitter_client api g w = (Inl e, w1)"
  shows "run_tool api g t w =
           (Inr (''Failed to '' @ action t @ '': '' @ str_exn e),
            w1\<lparr>logged := logged w1 @ [''Failed to '' @ action t @ '': '' @ str_exn e]\<rparr>)"
  using assms
  by (cases t)
     (simp_all add: tool_defs tool_try_defs try_except_rebind_def try_except_def bind_io_def
        log_and_return_eq)

lemma run_tool_returns:
  assumes "run_tool_try api g t w = (Inr s, w')"
  shows "run_tool api g t w = (Inr s, w')"
  using assms
  by (cases t)
     (simp_all add: tool_defs try_except_Inr try_except_rebind_returns
        get_user_followers_try_def get_user_following_try_def)

lemma run_tool_raises:
  assumes "run_tool_try api g t w = (Inl e, w')"
  shows "run_tool api g t w =
           (Inr (''Failed to '' @ action t @ '': '' @ str_exn e),
            w'\<lparr>logged := logged w' @ [''Failed to '' @ action t @ '': '' @ str_exn e]\<rparr>)
         \<or> run_tool api g t w =
           (Inr (''Failed to '' @ action_rebound t @ '': '' @ str_exn e),
            w'\<lparr>logged := logged w'
                  @ [''Failed to '' @ action_rebound t @ '': '' @ str_exn e]\<rparr>)"
proof (cases t)
  case (Tool_get_user_followers u n)
  with assms have b: "bind_io (get_twitter_client api g)
      (get_user_followers_rest api (lstrip ''@'' u) n) w = (Inl e, w')"
    by (simp add: get_user_followers_try_def)
  from try_except_rebind_raises
    [of "get_twitter_client api g" "get_user_followers_rest api (lstrip ''@'' u) n" w e w'
        "''Failed to get followers for user '' @ u @ '': ''"
        "''Failed to get followers for user '' @ lstrip ''@'' u @ '': ''", OF b]
  show ?thesis
    by (simp add: Tool_get_user_followers get_user_followers_def)
next
  case (Tool_get_user_following u n)
  with assms have b: "bind_io (get_twitter_client api g)
      (get_user_following_rest api (lstrip ''@'' u) n) w = (Inl e, w')"
    by (simp add: get_user_following_try_def)
  from try_except_rebind_raises
    [of "get_twitter_client api g" "get_user_following_rest api (lstrip ''@'' u) n" w e w'
        "''Failed to get following list for user '' @ u @ '': ''"
        "''Failed to get following list for user '' @ lstrip ''@'' u @ '': ''", OF b]
  show ?thesis
    by (simp add: Tool_get_user_following get_user_following_def)
qed (use assms in \<open>simp_all add: tool_defs try_except_Inl log_and_return_eq\<close>)



lemma calls_run_tool:
  "calls (snd (run_tool api g t w)) = calls (snd (run_tool_try api g t w))"
proof (cases "run_tool_try api g t w")
  case (Pair r w')
  show ?thesis
  proof (cases r)
    case (Inl e)
    with Pair run_tool_raises [of api g t w e w'] show ?thesis by auto
  next
    case (Inr s)
    with Pair run_tool_returns [of api g t w s w'] show ?thesis by simp
  qed
qed

lemma lstrip_at_Cons: "lstrip ''@'' (CHR ''@'' # s) = lstrip ''@'' s"
  by (simp add: lstrip_def)

lemma lstrip_at_replicate: "lstrip ''@'' (replicate k (CHR ''@'') @ s) = lstrip ''@'' s"
  by (induction k) (simp_all add: lstrip_def)

lemma lstrip_at_none: "\<not> prefix ''@'' s \<Longrightarrow> lstrip ''@'' s = s"
  by (cases s) (simp_all add: lstrip_def)

lemma run_tool_try_lstrip:
  "lstrip ''@'' u = lstrip ''@'' u' \<Longrightarrow>
     run_tool_try api g (username_call ut u) = run_tool_try api g (username_call ut u')"
  by (cases ut) (simp_all add: tool_try_defs Let_def)

lemma lookups_append: "lookups (xs @ ys) = lookups xs @ lookups ys"
  by (induction xs rule: lookups.induct) simp_all

lemma lookups_username_tool:
  assumes "get_twitter_client api g w = (Inr c, w1)"
  shows "lookups (calls (snd (run_tool_try api g (username_call ut u) w)))
           = lookups (calls w1) @ [lstrip ''@'' u]"
  using assms
  by (cases ut)
     (simp_all add: tool_try_defs get_user_followers_rest_def get_user_following_rest_def
        Let_def bind_io_def call_api_def return_io_def lookups_append
        split: sum.splits option.splits)

subsection \<open>Failures and their text\<close>

text \<open>
  Claim C1, as stated, fails. With no cookie file and a login that raises
  \<open>bad password\<close>, \<open>search_twitter\<close> does not raise: it returns the text
  \<open>Failed to search tweets: bad password\<close>.
\<close>

theorem login_failure_propagates_counterexample:
  "\<not> isl (fst (run_tool (stub_api (Inl (Exception ''bad password'')) (Inr None) [])
                  (module_init home0 env0) (Tool_search_twitter ''q'' ''Top'' 10) world0))
   \<and> fst (run_tool (stub_api (Inl (Exception ''bad password'')) (Inr None) [])
            (module_init home0 env0) (Tool_search_twitter ''q'' ''Top'' 10) world0)
       = Inr ''Failed to search tweets: bad password''"
  by (simp add: search_twitter_def search_twitter_try_def get_twitter_client_def Let_def
      bind_io_def try_except_def path_exists_def login_def call_api_def logger_error_def
      raise_io_def log_and_return_eq stub_api_def module_init_def home0_def world0_def)

text \<open>
  Claim C1, amended. When nothing exists at \<open>COOKIES_PATH\<close> and the login raises
  \<open>e\<close>, \<open>get_twitter_client\<close> logs \<open>Failed to login: e\<close> and raises \<open>e\<close> again;
  every tool calls it inside its \<^verbatim>\<open>try\<close> block, so the tool catches \<open>e\<close>, logs
  \<open>Failed to action: e\<close> and returns that text as its result.
\<close>

theorem login_failure_is_returned_as_text:
  assumes "COOKIES_PATH g \<notin> fs_dirs w" and "fs_files w (COOKIES_PATH g) = None"
    and "api_login api (twikit_Client ''en-US'' (USER_AGENT g))
           (USERNAME g) (EMAIL g) (PASSWORD g) = Inl e"
  shows "get_twitter_client api g w =
           (Inl e, w\<lparr>calls := calls w @ [Login (USERNAME g) (EMAIL g) (PASSWORD g)],
                     logged := logged w @ [''Failed to login: '' @ str_exn e]\<rparr>)
         \<and> run_tool api g t w =
           (Inr (''Failed to '' @ action t @ '': '' @ str_exn e),
            w\<lparr>calls := calls w @ [Login (USERNAME g) (EMAIL g) (PASSWORD g)],
              logged := logged w @ [''Failed to login: '' @ str_exn e,
                                    ''Failed to '' @ action t @ '': '' @ str_exn e]\<rparr>)"
proof -
  note c = gtc_login_fails [OF assms]
  from run_tool_client_raises [of api g w e _ t, OF c] c show ?thesis by simp
qed

theorem login_failure_is_returned_as_text_witness:
  "run_tool (stub_api (Inl (Exception ''bad password'')) (Inr None) [])
     (module_init home0 env0) (Tool_get_user_followers ''@alice'' 20) world0
   = (Inr ''Failed to get followers for user @alice: bad password'',
      world0\<lparr>calls := [Login (Some ''alice'') (Some ''a@x.org'') (Some ''pw'')],
             logged := [''Failed to login: bad password'',
                        ''Failed to get followers for user @alice: bad password'']\<rparr>)"
  using login_failure_is_returned_as_text
          [of "module_init home0 env0" world0
              "stub_api (Inl (Exception ''bad password'')) (Inr None) []"
              "Exception ''bad password''" "Tool_get_user_followers ''@alice'' 20"]
  by (simp add: stub_api_def module_init_def home0_def world0_def env0_def)



subsection \<open>Usernames\<close>

text \<open>
  Claim C6, as stated, fails. For a username that the lookup does not resolve,
  \<open>get_user_by_screen_name\<close> returns \<open>Could not find user with screen name ghost\<close>,
  which is not the text \<open>Could not find user ghost\<close>.
\<close>

theorem get_user_by_screen_name_not_found_counterexample:
  "fst (get_user_by_screen_name (stub_api (Inr []) (Inr None) [])
          (module_init home0 env0) ''ghost'' world1)
     = Inr ''Could not find user with screen name ghost''
   \<and> fst (get_user_by_screen_name (stub_api (Inr []) (Inr None) [])
            (module_init home0 env0) ''ghost'' world1)
     \<noteq> Inr ''Could not find user ghost''"
  by (simp add: get_user_by_screen_name_def get_user_by_screen_name_try_def
      get_twitter_client_def Let_def bind_io_def try_except_def path_exists_def
      load_cookies_def call_api_def return_io_def lstrip_def stub_api_def module_init_def
      home0_def world1_def world0_def)

text \<open>
  Claim C6, amended. When the client is obtained and the lookup of the username,
  without its leading at signs, answers \<^verbatim>\<open>None\<close>, the tool
  \<open>get_user_by_screen_name\<close> returns exactly
  \<open>Could not find user with screen name\<close> followed by that name, and the lookup is
  the last client call it makes.
\<close>

theorem get_user_by_screen_name_not_found:
  assumes "get_twitter_client api g w = (Inr c, w1)"
    and "api_get_user_by_screen_name api c (lstrip ''@'' username) = Inr None"
  shows "get_user_by_screen_name api g username w =
           (Inr (''Could not find user with screen name '' @ lstrip ''@'' username),
            w1\<lparr>calls := calls w1 @ [GetUserByScreenName (lstrip ''@'' username)]\<rparr>)"
  using assms
  by (simp add: get_user_by_screen_name_def get_user_by_screen_name_try_def Let_def
      bind_io_def try_except_def call_api_def return_io_def)

theorem get_user_by_screen_name_not_found_witness:
  "get_user_by_screen_name (stub_api (Inr []) (Inr None) [])
     (module_init home0 env0) ''@ghost'' world1
   = (Inr ''Could not find user with screen name ghost'',
      world1\<lparr>calls := [LoadCookies [''home'', ''u'', ''.mcp-twikit'', ''cookies.json''],
                        GetUserByScreenName ''ghost'']\<rparr>)"
proof -
  let ?api = "stub_api (Inr []) (Inr None) []"
  let ?c = "\<lparr>language = ''en-US'', user_agent = None,
             cookie_jar = [(''auth_token'', ''t0'')]\<rparr>"
  let ?w1 = "world1\<lparr>calls := [LoadCookies [''home'', ''u'', ''.mcp-twikit'', ''cookies.json'']]\<rparr>"
  have c: "get_twitter_client ?api (module_init home0 env0) world1 = (Inr ?c, ?w1)"
    by (simp add: get_twitter_client_def Let_def bind_io_def path_exists_def load_cookies_def
        twikit_Client_def module_init_def home0_def env0_def world1_def world0_def)
  have l: "api_get_user_by_screen_name ?api ?c (lstrip ''@'' ''@ghost'') = Inr None"
    by (simp add: stub_api_def)
  from get_user_by_screen_name_not_found [OF c l] show ?thesis
    by (simp add: lstrip_def world1_def world0_def)
qed

text \<open>
  Claim C7. For every tool that takes a username and every string \<open>s\<close>, the
  \<^verbatim>\<open>try\<close> block run with an at sign in front of \<open>s\<close> is the \<^verbatim>\<open>try\<close> block run
  with \<open>s\<close>: same result, same state. The tool itself records the same client
  calls for both, with the same screen names looked up; and once the client is
  obtained, the tool run with the at sign in front looks up exactly one screen name,
  which is \<open>s\<close> without its leading at signs, the name the run with \<open>s\<close> looks up.
  When \<open>s\<close> does not begin with an at sign, that name is \<open>s\<close> itself.
\<close>

theorem leading_at_resolves_identically:
  "run_tool_try api g (username_call ut (CHR ''@'' # s)) w
     = run_tool_try api g (username_call ut s) w
   \<and> calls (snd (run_tool api g (username_call ut (CHR ''@'' # s)) w))
     = calls (snd (run_tool api g (username_call ut s) w))
   \<and> lookups (calls (snd (run_tool api g (username_call ut (CHR ''@'' # s)) w)))
     = lookups (calls (snd (run_tool api g (username_call ut s) w)))
   \<and> (get_twitter_client api g w = (Inr c, w1) \<longrightarrow>
        lookups (calls (snd (run_tool api g (username_call ut (CHR ''@'' # s)) w)))
          = lookups (calls w1) @ [lstrip ''@'' s]
        \<and> lookups (calls (snd (run_tool api g (username_call ut s) w)))
          = lookups (calls w1) @ [lstrip ''@'' s])
   \<and> (\<not> prefix ''@'' s \<longrightarrow> lstrip ''@'' (CHR ''@'' # s) = s \<and> lstrip ''@'' s = s)"
  using lookups_username_tool [of api g w c w1 ut s]
  by (simp add: calls_run_tool run_tool_try_lstrip [OF lstrip_at_Cons] lstrip_at_Cons
      lstrip_at_none)

theorem leading_at_resolves_identically_witness:
  "lookups (calls (snd (run_tool (stub_api (Inr []) (Inr (Some user_a)) [])
        (module_init home0 env0) (Tool_block_user ''@alice'') world1))) = [''alice'']
   \<and> lookups (calls (snd (run_tool (stub_api (Inr []) (Inr (Some user_a)) [])
        (module_init home0 env0) (Tool_block_user ''alice'') world1))) = [''alice'']"
proof -
  let ?api = "stub_api (Inr []) (Inr (Some user_a)) []"
  let ?c = "\<lparr>language = ''en-US'', user_agent = None,
             cookie_jar = [(''auth_token'', ''t0'')]\<rparr>"
  let ?w1 = "world1\<lparr>calls := [LoadCookies [''home'', ''u'', ''.mcp-twikit'', ''cookies.json'']]\<rparr>"
  have c: "get_twitter_client ?api (module_init home0 env0) world1 = (Inr ?c, ?w1)"
    by (simp add: get_twitter_client_def Let_def bind_io_def path_exists_def load_cookies_def
        twikit_Client_def module_init_def home0_def env0_def world1_def world0_def)
  have n: "\<not> prefix ''@'' ''alice''" by simp
  from leading_at_resolves_identically [of ?api "module_init home0 env0" U_block_user
      "''alice''" world1 ?c ?w1] c n
  show ?thesis by simp
qed

text \<open>
  Claim C10. For every tool that takes a username, every \<open>s\<close> that does not begin
  with an at sign and every number \<open>k\<close> of at signs in front of \<open>s\<close>: the name
  after stripping is \<open>s\<close>, the \<^verbatim>\<open>try\<close> block behaves as for \<open>s\<close>, and once the
  client is obtained the tool looks up exactly one screen name, \<open>s\<close>.
\<close>

theorem all_leading_ats_are_stripped:
  assumes "\<not> prefix ''@'' s"
  shows "lstrip ''@'' (replicate k (CHR ''@'') @ s) = s
         \<and> run_tool_try api g (username_call ut (replicate k (CHR ''@'') @ s)) w
           = run_tool_try api g (username_call ut s) w
         \<and> (get_twitter_client api g w = (Inr c, w1) \<longrightarrow>
              lookups (calls (snd (run_tool api g
                 (username_call ut (replicate k (CHR ''@'') @ s)) w)))
              = lookups (calls w1) @ [s])"
proof -
  have 1: "lstrip ''@'' (replicate k (CHR ''@'') @ s) = s"
    using assms by (simp add: lstrip_at_replicate lstrip_at_none)
  have 2: "lstrip ''@'' (replicate k (CHR ''@'') @ s) = lstrip ''@'' s"
    by (rule lstrip_at_replicate)
  show ?thesis
    using 1 run_tool_try_lstrip [OF 2, of api g ut]
      lookups_username_tool [of api g w c w1 ut "replicate k (CHR ''@'') @ s"]
    by (simp add: calls_run_tool)
qed

theorem all_leading_ats_are_stripped_witness:
  "lstrip ''@'' ''@@alice'' = ''alice''
   \<and> lookups (calls (snd (run_tool (stub_api (Inr []) (Inr None) [])
        (module_init home0 env0) (Tool_follow_user ''@@alice'') world1))) = [''alice'']"
proof -
  let ?api = "stub_api (Inr []) (Inr None) []"
  let ?c = "\<lparr>language = ''en-US'', user_agent = None,
             cookie_jar = [(''auth_token'', ''t0'')]\<rparr>"
  let ?w1 = "world1\<lparr>calls := [LoadCookies [''home'', ''u'', ''.mcp-twikit'', ''cookies.json'']]\<rparr>"
  have c: "get_twitter_client ?api (module_init home0 env0) world1 = (Inr ?c, ?w1)"
    by (simp add: get_twitter_client_def Let_def bind_io_def path_exists_def load_cookies_def
        twikit_Client_def module_init_def home0_def env0_def world1_def world0_def)
  have n: "\<not> prefix ''@'' ''alice''" by simp
  from all_leading_ats_are_stripped [OF n, of 2 ?api "module_init home0 env0" U_follow_user
      world1 ?c ?w1] c
  show ?thesis by (simp add: numeral_2_eq_2)
qed

subsection \<open>When the environment is read\<close>

text \<open>
  Claim C8, as stated, fails. The module is imported with \<open>TWITTER_USERNAME\<close> set
  to alice; the variable is then set to bob; the session created afterwards logs in
  as alice.
\<close>

theorem environment_read_at_session_creation_counterexample:
  "environ (world0\<lparr>environ := env0(''TWITTER_USERNAME'' \<mapsto> ''bob'')\<rparr>) ''TWITTER_USERNAME''
     = Some ''bob''
   \<and> calls (snd (get_twitter_client (stub_api (Inr []) (Inr None) [])
                   (module_init home0 env0)
                   (world0\<lparr>environ := env0(''TWITTER_USERNAME'' \<mapsto> ''bob'')\<rparr>)))
     = [Login (Some ''alice'') (Some ''a@x.org'') (Some ''pw''),
        SaveCookies [''home'', ''u'', ''.mcp-twikit'', ''cookies.json'']]"
  by (simp add: get_twitter_client_def Let_def bind_io_def try_except_def path_exists_def
      login_def call_api_def return_io_def mkdir_parents_def save_cookies_def parent_def
      stub_api_def module_init_def home0_def env0_def world0_def)

text \<open>
  Claim C8, amended. The three credentials and the user agent are read from the
  process environment once, by the assignments that run when the module is imported.
  \<open>get_twitter_client\<close> uses the values stored then: a login it makes is a login with
  these values, the client it returns has the stored user agent, and changing the
  environment before a session is created changes neither its result nor its
  effects.
\<close>

theorem environment_read_at_import:
  "USERNAME (module_init home env) = env ''TWITTER_USERNAME''
   \<and> EMAIL (module_init home env) = env ''TWITTER_EMAIL''
   \<and> PASSWORD (module_init home env) = env ''TWITTER_PASSWORD''
   \<and> USER_AGENT (module_init home env) = env ''USER_AGENT''
   \<and> get_twitter_client api g (w\<lparr>environ := env'\<rparr>)
     = (fst (get_twitter_client api g w), (snd (get_twitter_client api g w))\<lparr>environ := env'\<rparr>)
   \<and> (COOKIES_PATH g \<notin> fs_dirs w \<and> fs_files w (COOKIES_PATH g) = None \<longrightarrow>
        hd (drop (length (calls w)) (calls (snd (get_twitter_client api g (w\<lparr>environ := env'\<rparr>)))))
        = Login (USERNAME g) (EMAIL g) (PASSWORD g))
   \<and> (get_twitter_client api g (w\<lparr>environ := env'\<rparr>) = (Inr c, w1) \<longrightarrow>
        user_agent c = USER_AGENT g)"
proof -
  have "hd (drop (length (calls w)) (calls (snd (get_twitter_client api g w))))
          = Login (USERNAME g) (EMAIL g) (PASSWORD g)"
    if "COOKIES_PATH g \<notin> fs_dirs w" "fs_files w (COOKIES_PATH g) = None"
    using that
    by (simp add: get_twitter_client_def Let_def bind_io_def try_except_def path_exists_def
        login_def call_api_def return_io_def mkdir_parents_def save_cookies_def
        logger_error_def raise_io_def split: sum.splits)
  moreover have "user_agent c = USER_AGENT g"
    if "get_twitter_client api g (w\<lparr>environ := env'\<rparr>) = (Inr c, w1)"
    using that by (rule gtc_user_agent)
  ultimately show ?thesis
    by (simp add: module_init_def gtc_environ)
qed

theorem environment_read_at_import_witness:
  "hd (calls (snd (get_twitter_client (stub_api (Inr []) (Inr None) [])
                     (module_init home0 env0)
                     (world0\<lparr>environ := env0(''TWITTER_USERNAME'' \<mapsto> ''bob'')\<rparr>))))
     = Login (Some ''alice'') (Some ''a@x.org'') (Some ''pw'')"
proof -
  have h: "COOKIES_PATH (module_init home0 env0) \<notin> fs_dirs world0
           \<and> fs_files world0 (COOKIES_PATH (module_init home0 env0)) = None"
    by (simp add: module_init_def home0_def world0_def)
  have n: "length (calls world0) = 0"
    by (simp add: world0_def)
  from environment_read_at_import
          [where home = home0 and env = env0 and api = "stub_api (Inr []) (Inr None) []"
             and g = "module_init home0 env0" and w = world0
             and env' = "env0(''TWITTER_USERNAME'' \<mapsto> ''bob'')"] h
  have "hd (drop (length (calls world0))
          (calls (snd (get_twitter_client (stub_api (Inr []) (Inr None) [])
                     (module_init home0 env0)
                     (world0\<lparr>environ := env0(''TWITTER_USERNAME'' \<mapsto> ''bob'')\<rparr>)))))
        = Login (USERNAME (module_init home0 env0)) (EMAIL (module_init home0 env0))
            (PASSWORD (module_init home0 env0))"
    by blast
  then show ?thesis
    unfolding n by (simp add: module_init_def env0_def)
qed

end
